theory Spec2Isabelle
  imports Complex_Main
begin

section \<open>JavaScript values\<close>

text \<open>
  Both halves of the program handle values that come out of \<^verbatim>\<open>JSON.parse\<close> and are typed
  \<^verbatim>\<open>any\<close>: the request body, the body of the external service's answer, the handler's
  answer as the client reads it. They are modelled by one datatype of JavaScript values.
  \<open>JUndefined\<close> is what reading a property that is not there gives; a parsed JSON text
  never contains it. A \<open>string\<close> is a list of code units; one \<open>char\<close> stands for one code
  unit below 256. An object is the list of its own properties; \<open>map_of\<close> reads it.
\<close>

datatype jsval =
    JUndefined
  | JNull
  | JBool bool
  | JNum real
  | JStr string
  | JArr "jsval list"
  | JObj "(string \<times> jsval) list"

text \<open>The errors the program can see thrown, by the name the runtime gives them.\<close>

datatype js_error = AbortError | SyntaxError | TypeError | RangeError | Error string

text \<open>
  \<open>truthy v\<close> is what \<^verbatim>\<open>if (v)\<close> tests and \<^verbatim>\<open>!v\<close> negates: \<^verbatim>\<open>undefined\<close>, \<^verbatim>\<open>null\<close>,
  \<^verbatim>\<open>false\<close>, zero and the empty string are falsy, every array and object is truthy.
\<close>

fun truthy :: "jsval \<Rightarrow> bool" where
  "truthy JUndefined = False"
| "truthy JNull = False"
| "truthy (JBool b) = b"
| "truthy (JNum x) = (x \<noteq> 0)"
| "truthy (JStr s) = (s \<noteq> [])"
| "truthy (JArr xs) = True"
| "truthy (JObj kvs) = True"

text \<open>\<^verbatim>\<open>a || b\<close>: the left operand when it is truthy, the right one otherwise.\<close>

definition js_or :: "jsval \<Rightarrow> jsval \<Rightarrow> jsval" where
  "js_or a b = (if truthy a then a else b)"

text \<open>
  \<open>get_prop v k\<close> is \<^verbatim>\<open>v.k\<close> (and the destructuring \<^verbatim>\<open>const { k } = v\<close>) for the three keys
  the program reads, \<^verbatim>\<open>message\<close>, \<^verbatim>\<open>response\<close> and \<^verbatim>\<open>urls\<close>: on \<^verbatim>\<open>undefined\<close> and \<^verbatim>\<open>null\<close>
  it throws a TypeError, on an object it is the property or \<^verbatim>\<open>undefined\<close>, and a boolean,
  a number, a string and an array have no property of these names.
\<close>

fun get_prop :: "jsval \<Rightarrow> string \<Rightarrow> js_error + jsval" where
  "get_prop JUndefined k = Inl TypeError"
| "get_prop JNull k = Inl TypeError"
| "get_prop (JObj kvs) k = Inr (case map_of kvs k of None \<Rightarrow> JUndefined | Some v \<Rightarrow> v)"
| "get_prop (JBool b) k = Inr JUndefined"
| "get_prop (JNum x) k = Inr JUndefined"
| "get_prop (JStr s) k = Inr JUndefined"
| "get_prop (JArr xs) k = Inr JUndefined"

section \<open>Messages and HTTP responses\<close>

text \<open>
  \<^verbatim>\<open>interface Message { role: 'user' | 'assistant'; content: string; urls?: Array<...> }\<close>.
  The interface is checked at compile time only, and the handler fills \<open>content\<close> and
  \<open>urls\<close> from a value typed \<^verbatim>\<open>any\<close>, so both fields hold a \<open>jsval\<close>. A message whose
  \<open>urls\<close> is \<open>JUndefined\<close> is serialised without that key.
\<close>

datatype role = User | Assistant

record message =
  role :: role
  content :: jsval
  urls :: jsval

text \<open>
  A response as the code reads it: its status and what \<^verbatim>\<open>response.json()\<close> gives. For a
  response received by \<^verbatim>\<open>fetch\<close> the body is an option, \<open>None\<close> when the body is not JSON
  and \<^verbatim>\<open>response.json()\<close> throws a SyntaxError.
\<close>

record 'a response =
  status :: nat
  body :: 'a

text \<open>\<^verbatim>\<open>response.ok\<close>: the status is in the range 200 to 299.\<close>

definition ok :: "'a response \<Rightarrow> bool" where
  "ok r = (200 \<le> status r \<and> status r \<le> 299)"

text \<open>
  \<^verbatim>\<open>NextResponse.json(body, { status })\<close> builds the handler's answer; without the second
  argument the status is 200. The constructor belongs to the framework and initialises a
  response as the Fetch standard says: it throws a RangeError for a status outside 200 to
  599, and, the body being given, a TypeError for the statuses that allow no body (204,
  205 and 304 in that range). \<open>Inl\<close> is the error thrown.
\<close>

definition NextResponse_json :: "message \<Rightarrow> nat \<Rightarrow> js_error + message response" where
  "NextResponse_json b st =
     (if st < 200 \<or> 599 < st then Inl RangeError
      else if st = 204 \<or> st = 205 \<or> st = 304 then Inl TypeError
      else Inr \<lparr>status = st, body = b\<rparr>)"

section \<open>The proxy handler: \<^verbatim>\<open>POST\<close> of \<^verbatim>\<open>app/api/chat/route.ts\<close>\<close>

text \<open>
  What the handler does besides answering is recorded as a trace of events, one for each
  call of the source that acts on the timer, the abort controller or the network:
  \<^verbatim>\<open>setTimeout(..., ms)\<close>, the outbound \<^verbatim>\<open>fetch(url, {body})\<close>, \<^verbatim>\<open>clearTimeout\<close>,
  \<^verbatim>\<open>controller.abort()\<close> run by the timer, and \<^verbatim>\<open>controller.abort()\<close> of the \<^verbatim>\<open>finally\<close>
  block. The two \<^verbatim>\<open>console\<close> calls are left out.
\<close>

datatype event =
    SetTimeout nat
  | FetchCall string jsval
  | ClearTimeout
  | TimerAbort
  | FinallyAbort

text \<open>
  The external assistant service, as one call sees it: it answers after \<open>t\<close> milliseconds
  with a response, the connection fails after \<open>t\<close> milliseconds, or nothing ever comes.
\<close>

datatype upstream =
    Replies nat "jsval option response"
  | Fails nat
  | Silent

text \<open>
  \<^verbatim>\<open>await fetch(url, {..., body, signal: controller.signal})\<close> while a timer set to \<open>ms\<close>
  milliseconds is pending on the same controller. What the service does up to the
  \<open>ms\<close>-th millisecond settles the promise (a failed connection rejects it with a
  TypeError); otherwise the timer runs first, aborts the controller, and the promise is
  rejected with an AbortError. The result comes with the events that happened up to
  the moment the promise settles.
\<close>

fun fetch_signal :: "nat \<Rightarrow> string \<Rightarrow> jsval \<Rightarrow> upstream \<Rightarrow>
    (js_error + jsval option response) \<times> event list" where
  "fetch_signal ms url b (Replies t r) =
     (if t \<le> ms then (Inr r, [FetchCall url b])
      else (Inl AbortError, [FetchCall url b, TimerAbort]))"
| "fetch_signal ms url b (Fails t) =
     (if t \<le> ms then (Inl TypeError, [FetchCall url b])
      else (Inl AbortError, [FetchCall url b, TimerAbort]))"
| "fetch_signal ms url b Silent = (Inl AbortError, [FetchCall url b, TimerAbort])"

text \<open>
  Lines 463 to 475: what the handler makes of a response of the service. \<open>Inl\<close> is an
  exception thrown inside the inner \<^verbatim>\<open>try\<close>, by \<^verbatim>\<open>response.json()\<close>, by reading a property
  of \<^verbatim>\<open>data\<close> or by \<^verbatim>\<open>NextResponse.json\<close>.
\<close>

definition on_response :: "jsval option response \<Rightarrow> js_error + message response" where
  "on_response response =
     (if \<not> ok response then
        NextResponse_json
          \<lparr>role = Assistant,
           content = JStr ''Sorry, I encountered an error processing your request.'',
           urls = JUndefined\<rparr> (status response)
      else
        (case body response of
           None \<Rightarrow> Inl SyntaxError
         | Some data \<Rightarrow>
            (case get_prop data ''response'' of
               Inl e \<Rightarrow> Inl e
             | Inr data_response \<Rightarrow>
                (case get_prop data ''message'' of
                   Inl e \<Rightarrow> Inl e
                 | Inr data_message \<Rightarrow>
                    (case get_prop data ''urls'' of
                       Inl e \<Rightarrow> Inl e
                     | Inr data_urls \<Rightarrow>
                        NextResponse_json
                          \<lparr>role = Assistant,
                           content = js_or (js_or data_response data_message)
                                       (JStr ''No response received''),
                           urls = data_urls\<rparr> 200)))))"

text \<open>
  Lines 477 to 485, the inner \<^verbatim>\<open>catch (fetchError)\<close>: an AbortError becomes the 408 answer,
  anything else is thrown again.
\<close>

definition catch_fetchError :: "js_error + message response \<Rightarrow> js_error + message response" where
  "catch_fetchError r =
     (case r of
        Inr x \<Rightarrow> Inr x
      | Inl fetchError \<Rightarrow>
          (if fetchError = AbortError then
             NextResponse_json
               \<lparr>role = Assistant,
                content = JStr ''Sorry, the request timed out. Please try again.'',
                urls = JUndefined\<rparr> 408
           else Inl fetchError))"

text \<open>
  Lines 448 to 485: the timer is set, the inner \<^verbatim>\<open>try\<close> runs the outbound call, clears
  the timer once the call has settled with a response, and reads the response.
\<close>

definition forward :: "jsval \<Rightarrow> upstream \<Rightarrow> (js_error + message response) \<times> event list" where
  "forward message up =
     (case fetch_signal 290000 ''https://connect-america-2.vercel.app/chat''
             (JObj [(''message'', message)]) up of
        (Inl fetchError, evs) \<Rightarrow> (catch_fetchError (Inl fetchError), SetTimeout 290000 # evs)
      | (Inr response, evs) \<Rightarrow>
          (catch_fetchError (on_response response), SetTimeout 290000 # evs @ [ClearTimeout]))"

text \<open>
  Lines 436 to 485, the body of the outer \<^verbatim>\<open>try\<close>. The request body is \<open>None\<close> when
  \<^verbatim>\<open>request.json()\<close> throws.
\<close>

definition try_block :: "jsval option \<Rightarrow> upstream \<Rightarrow> (js_error + message response) \<times> event list" where
  "try_block request_json up =
     (case request_json of
        None \<Rightarrow> (Inl SyntaxError, [])
      | Some parsed \<Rightarrow>
         (case get_prop parsed ''message'' of
            Inl e \<Rightarrow> (Inl e, [])
          | Inr message \<Rightarrow>
              (if \<not> truthy message then
                 (NextResponse_json
                    \<lparr>role = Assistant, content = JStr ''No message provided'',
                     urls = JUndefined\<rparr> 400, [])
               else forward message up)))"

text \<open>
  The whole handler: the outer \<^verbatim>\<open>catch\<close> turns every exception into the 500 answer, and
  the \<^verbatim>\<open>finally\<close> block aborts the controller on every path. The answer of the outer
  \<^verbatim>\<open>catch\<close> is \<^verbatim>\<open>NextResponse.json(..., { status: 500 })\<close>; the constructor accepts the
  status 500 (lemma \<open>NextResponse_json_500\<close> below), so the answer is written as the
  response it builds.
\<close>

definition POST :: "jsval option \<Rightarrow> upstream \<Rightarrow> message response \<times> event list" where
  "POST request_json up =
     (case try_block request_json up of
        (Inr answer, evs) \<Rightarrow> (answer, evs @ [FinallyAbort])
      | (Inl error, evs) \<Rightarrow>
          (\<lparr>status = 500,
            body = \<lparr>role = Assistant,
                    content = JStr ''Sorry, something went wrong. Please try again.'',
                    urls = JUndefined\<rparr>\<rparr>,
           evs @ [FinallyAbort]))"

text \<open>The outbound calls of a trace.\<close>

fun is_fetch :: "event \<Rightarrow> bool" where
  "is_fetch (FetchCall url b) = True"
| "is_fetch e = False"

definition outbound_calls :: "event list \<Rightarrow> event list" where
  "outbound_calls evs = filter is_fetch evs"

section \<open>The chat client: \<^verbatim>\<open>ChatPage\<close> of \<^verbatim>\<open>app/chat/page.tsx\<close>\<close>

text \<open>
  \<^verbatim>\<open>String.prototype.trim\<close> removes white space and line terminators from both ends. Of
  the code units below 256 these are tab, line feed, vertical tab, form feed, carriage
  return, space and no-break space.
\<close>

definition is_ws :: "char \<Rightarrow> bool" where
  "is_ws c = (of_char c \<in> {9, 10, 11, 12, 13, 32, 160 :: nat})"

definition trim :: "string \<Rightarrow> string" where
  "trim s = rev (dropWhile is_ws (rev (dropWhile is_ws s)))"

text \<open>The state of the component: its five \<^verbatim>\<open>useState\<close> cells.\<close>

record chat_state =
  messages :: "message list"
  inputValue :: string
  isSidebarOpen :: bool
  loading :: bool
  error :: "string option"

text \<open>
  \<^verbatim>\<open>sendMessageToAPI\<close> (lines 75 to 95). The second argument is how the one
  \<^verbatim>\<open>fetch('/api/chat', ...)\<close> settles: rejected with an error, or resolved with a response
  whose body is \<open>None\<close> when it is not JSON. The result is the value returned (\<open>Inr\<close>) or
  the error thrown again by the \<^verbatim>\<open>catch\<close> (\<open>Inl\<close>), with the call that was made. The
  value returned is whatever JSON the response holds; it is typed as a message because
  that is what the caller appends.
\<close>

definition sendMessageToAPI :: "string \<Rightarrow> (js_error + message option response) \<Rightarrow>
    (js_error + message) \<times> event list" where
  "sendMessageToAPI message settled =
     ((case settled of
         Inl err \<Rightarrow> Inl err
       | Inr response \<Rightarrow>
           (if \<not> ok response then Inl (Error ''Failed to send message'')
            else (case body response of
                    None \<Rightarrow> Inl SyntaxError
                  | Some data \<Rightarrow> Inr data))),
      [FetchCall ''/api/chat'' (JObj [(''message'', JStr message)])])"

text \<open>
  Lines 100 to 105 of \<^verbatim>\<open>handleSubmit\<close>: the state while the call is awaited.
\<close>

definition submit_begin :: "chat_state \<Rightarrow> chat_state" where
  "submit_begin s =
     s\<lparr>error := None,
       loading := True,
       messages := messages s @ [\<lparr>role = User, content = JStr (inputValue s), urls = JUndefined\<rparr>],
       inputValue := []\<rparr>"

text \<open>
  \<^verbatim>\<open>handleSubmit\<close> (lines 97 to 117): the state once the handler has run to its end, and
  the calls it made. \<^verbatim>\<open>sendMessageToAPI\<close> is given the \<^verbatim>\<open>inputValue\<close> of the render the
  handler closes over, not the cleared one.
\<close>

definition handleSubmit :: "chat_state \<Rightarrow> (js_error + message option response) \<Rightarrow>
    chat_state \<times> event list" where
  "handleSubmit s settled =
     (if trim (inputValue s) \<noteq> [] then
        (case sendMessageToAPI (inputValue s) settled of
           (Inr aiResponse, evs) \<Rightarrow>
             ((submit_begin s)\<lparr>messages := messages (submit_begin s) @ [aiResponse],
                               loading := False\<rparr>, evs)
         | (Inl err, evs) \<Rightarrow>
             ((submit_begin s)\<lparr>error := Some ''Failed to get response. Please try again.'',
                               loading := False\<rparr>, evs))
      else (s, []))"

text \<open>
  The client's call served by the handler above: the request body is
  \<^verbatim>\<open>JSON.stringify({ message })\<close>, and the client reads the handler's status and message.
  When the handler cannot be reached, \<^verbatim>\<open>fetch\<close> rejects with a TypeError.
\<close>

definition api_chat :: "bool \<Rightarrow> upstream \<Rightarrow> string \<Rightarrow> js_error + message option response" where
  "api_chat reachable up message =
     (if reachable then
        Inr \<lparr>status = status (fst (POST (Some (JObj [(''message'', JStr message)])) up)),
             body = Some (body (fst (POST (Some (JObj [(''message'', JStr message)])) up)))\<rparr>
      else Inl TypeError)"

subsection \<open>The reference list\<close>

text \<open>\<^verbatim>\<open>s.startsWith(p)\<close> and \<^verbatim>\<open>s.includes(p)\<close>, by code unit.\<close>

fun startsWith :: "string \<Rightarrow> string \<Rightarrow> bool" where
  "startsWith s [] = True"
| "startsWith [] (p # ps) = False"
| "startsWith (c # cs) (p # ps) = (c = p \<and> startsWith cs ps)"

fun includes_str :: "string \<Rightarrow> string \<Rightarrow> bool" where
  "includes_str [] p = (p = [])"
| "includes_str (c # cs) p = (startsWith (c # cs) p \<or> includes_str cs p)"

text \<open>Lines 154 to 156 of \<^verbatim>\<open>References\<close>: the label under a document's title.\<close>

definition document_type_label :: "string \<Rightarrow> string" where
  "document_type_label url =
     (if includes_str url ''.pdf'' then ''PDF Document''
      else if includes_str url ''.doc'' then ''Word Document''
      else ''Document'')"

section \<open>Predicates of the statements\<close>

text \<open>\<^verbatim>\<open>typeof v === 'string'\<close>.\<close>

fun is_string :: "jsval \<Rightarrow> bool" where
  "is_string (JStr s) = True"
| "is_string v = False"

text \<open>
  Whether the outbound call is still in flight \<open>ms\<close> milliseconds after its start.
\<close>

fun still_pending :: "nat \<Rightarrow> upstream \<Rightarrow> bool" where
  "still_pending ms (Replies t r) = (ms < t)"
| "still_pending ms (Fails t) = (ms < t)"
| "still_pending ms Silent = True"

section \<open>Facts about the operations\<close>

text \<open>\<open>startsWith\<close> and \<open>includes_str\<close> decide what their names say.\<close>

lemma startsWith_iff: "startsWith s p \<longleftrightarrow> (\<exists>b. s = p @ b)"
  by (induction s p rule: startsWith.induct) auto

lemma includes_str_iff: "includes_str s p \<longleftrightarrow> (\<exists>a b. s = a @ p @ b)"
proof (induction s)
  case Nil
  then show ?case by auto
next
  case (Cons c cs)
  show ?case
  proof
    assume "includes_str (c # cs) p"
    then consider "startsWith (c # cs) p" | "includes_str cs p" by auto
    then show "\<exists>a b. c # cs = a @ p @ b"
    proof cases
      case 1
      then obtain b where "c # cs = [] @ p @ b" by (auto simp: startsWith_iff)
      then show ?thesis by blast
    next
      case 2
      then obtain a b where "cs = a @ p @ b" using Cons.IH by blast
      then have "c # cs = (c # a) @ p @ b" by simp
      then show ?thesis by blast
    qed
  next
    assume "\<exists>a b. c # cs = a @ p @ b"
    then obtain a b where ab: "c # cs = a @ p @ b" by blast
    show "includes_str (c # cs) p"
    proof (cases a)
      case Nil
      with ab have "startsWith (c # cs) p" by (auto simp: startsWith_iff)
      then show ?thesis by simp
    next
      case (Cons x a')
      with ab have "cs = a' @ p @ b" by simp
      then have "includes_str cs p" using Cons.IH by blast
      then show ?thesis by simp
    qed
  qed
qed

text \<open>The guard of \<^verbatim>\<open>handleSubmit\<close> fails exactly on the inputs made of white space.\<close>

lemma dropWhile_all: "(\<forall>x\<in>set (dropWhile P s). P x) \<longleftrightarrow> (\<forall>x\<in>set s. P x)"
proof
  assume a: "\<forall>x\<in>set (dropWhile P s). P x"
  have "dropWhile P s = []"
  proof (rule ccontr)
    assume ne: "dropWhile P s \<noteq> []"
    then have "\<not> P (hd (dropWhile P s))" by (rule hd_dropWhile)
    moreover from ne have "hd (dropWhile P s) \<in> set (dropWhile P s)" by simp
    ultimately show False using a by blast
  qed
  then show "\<forall>x\<in>set s. P x" by simp
next
  assume "\<forall>x\<in>set s. P x"
  then show "\<forall>x\<in>set (dropWhile P s). P x" by (auto dest: set_dropWhileD)
qed

lemma trim_blank: "trim s = [] \<longleftrightarrow> list_all is_ws s"
  by (simp add: trim_def dropWhile_all list_all_iff)

text \<open>The handler, path by path.\<close>

lemma NextResponse_json_500: "NextResponse_json b 500 = Inr \<lparr>status = 500, body = b\<rparr>"
  by (simp add: NextResponse_json_def)

lemma POST_falsy_message:
  assumes "get_prop parsed ''message'' = Inr m" and "\<not> truthy m"
  shows "POST (Some parsed) up =
     (\<lparr>status = 400,
       body = \<lparr>role = Assistant, content = JStr ''No message provided'', urls = JUndefined\<rparr>\<rparr>,
      [FinallyAbort])"
  using assms by (simp add: POST_def try_block_def NextResponse_json_def)

lemma POST_forward:
  assumes "get_prop parsed ''message'' = Inr m" and "truthy m"
  shows "POST (Some parsed) up =
     (case forward m up of
        (Inr answer, evs) \<Rightarrow> (answer, evs @ [FinallyAbort])
      | (Inl e, evs) \<Rightarrow>
          (\<lparr>status = 500,
            body = \<lparr>role = Assistant,
                    content = JStr ''Sorry, something went wrong. Please try again.'',
                    urls = JUndefined\<rparr>\<rparr>,
           evs @ [FinallyAbort]))"
  using assms
  by (simp add: POST_def try_block_def NextResponse_json_def split: prod.split sum.split)

lemma forward_pending:
  assumes "still_pending 290000 up"
  shows "forward m up =
     (Inr \<lparr>status = 408,
           body = \<lparr>role = Assistant,
                   content = JStr ''Sorry, the request timed out. Please try again.'',
                   urls = JUndefined\<rparr>\<rparr>,
      [SetTimeout 290000,
       FetchCall ''https://connect-america-2.vercel.app/chat'' (JObj [(''message'', m)]),
       TimerAbort])"
  using assms
  by (cases up) (simp_all add: forward_def catch_fetchError_def NextResponse_json_def)

lemma forward_replies:
  assumes "t \<le> 290000"
  shows "forward m (Replies t r) =
     (catch_fetchError (on_response r),
      [SetTimeout 290000,
       FetchCall ''https://connect-america-2.vercel.app/chat'' (JObj [(''message'', m)]),
       ClearTimeout])"
  using assms by (simp add: forward_def)

lemma on_response_not_ok:
  assumes "300 \<le> status r" and "status r \<le> 599" and "status r \<noteq> 304"
  shows "catch_fetchError (on_response r) =
     Inr \<lparr>status = status r,
          body = \<lparr>role = Assistant,
                  content = JStr ''Sorry, I encountered an error processing your request.'',
                  urls = JUndefined\<rparr>\<rparr>"
  using assms
  by (simp add: on_response_def catch_fetchError_def NextResponse_json_def ok_def)

lemma on_response_refused:
  assumes "status r < 200 \<or> 599 < status r \<or> status r = 304"
  shows "\<exists>e. catch_fetchError (on_response r) = Inl e"
  using assms
  by (auto simp: on_response_def catch_fetchError_def NextResponse_json_def ok_def)

lemma POST_upstream_refused:
  assumes "get_prop parsed ''message'' = Inr m" and "truthy m"
    and "t \<le> 290000"
    and "status r < 200 \<or> 599 < status r \<or> status r = 304"
  shows "POST (Some parsed) (Replies t r) =
     (\<lparr>status = 500,
       body = \<lparr>role = Assistant,
               content = JStr ''Sorry, something went wrong. Please try again.'',
               urls = JUndefined\<rparr>\<rparr>,
      [SetTimeout 290000,
       FetchCall ''https://connect-america-2.vercel.app/chat'' (JObj [(''message'', m)]),
       ClearTimeout,
       FinallyAbort])"
proof -
  from on_response_refused [OF assms(4)] obtain e
    where "catch_fetchError (on_response r) = Inl e" ..
  with assms(1-3) show ?thesis
    by (simp add: POST_forward forward_replies)
qed

lemma on_response_ok:
  assumes "200 \<le> status r" and "status r \<le> 299" and "body r = Some data"
    and "get_prop data ''response'' = Inr dr"
    and "get_prop data ''message'' = Inr dm"
    and "get_prop data ''urls'' = Inr du"
  shows "catch_fetchError (on_response r) =
     Inr \<lparr>status = 200,
          body = \<lparr>role = Assistant,
                  content = js_or (js_or dr dm) (JStr ''No response received''),
                  urls = du\<rparr>\<rparr>"
  using assms
  by (simp add: on_response_def catch_fetchError_def NextResponse_json_def ok_def)

text \<open>Every answer of the handler is built with the role \<^verbatim>\<open>'assistant'\<close>.\<close>

lemma POST_role: "role (body (fst (POST rq up))) = Assistant"
  by (auto simp: POST_def try_block_def forward_def catch_fetchError_def on_response_def
      NextResponse_json_def
      split: option.splits sum.splits prod.splits if_splits upstream.splits)

text \<open>
  The content of an answer is one of the handler's own literals, or a truthy
  \<^verbatim>\<open>response\<close> or \<^verbatim>\<open>message\<close> property of the service's body, passed on as it is.
\<close>

lemma on_response_content:
  assumes "catch_fetchError (on_response r) = Inr a"
  shows "is_string (content (body a)) \<or>
     (\<exists>data v. body r = Some data \<and>
        (get_prop data ''response'' = Inr v \<or> get_prop data ''message'' = Inr v) \<and>
        truthy v \<and> content (body a) = v)"
  using assms
  by (auto simp: catch_fetchError_def on_response_def NextResponse_json_def js_or_def
      split: option.splits sum.splits if_splits)

lemma forward_content:
  assumes "forward m up = (Inr a, evs)"
  shows "is_string (content (body a)) \<or>
     (\<exists>t r data v. up = Replies t r \<and> body r = Some data \<and>
        (get_prop data ''response'' = Inr v \<or> get_prop data ''message'' = Inr v) \<and>
        truthy v \<and> content (body a) = v)"
proof (cases up)
  case (Replies t r)
  show ?thesis
  proof (cases "t \<le> 290000")
    case True
    with assms Replies have "catch_fetchError (on_response r) = Inr a"
      by (simp add: forward_def)
    from on_response_content [OF this] Replies show ?thesis by blast
  next
    case False
    with assms Replies show ?thesis
      by (auto simp: forward_def catch_fetchError_def NextResponse_json_def)
  qed
next
  case (Fails t)
  with assms show ?thesis
    by (auto simp: forward_def catch_fetchError_def NextResponse_json_def split: if_splits)
next
  case Silent
  with assms show ?thesis
    by (auto simp: forward_def catch_fetchError_def NextResponse_json_def)
qed

lemma POST_content:
  "is_string (content (body (fst (POST rq up)))) \<or>
     (\<exists>t r data v. up = Replies t r \<and> body r = Some data \<and>
        (get_prop data ''response'' = Inr v \<or> get_prop data ''message'' = Inr v) \<and>
        truthy v \<and> content (body (fst (POST rq up))) = v)"
proof (cases "\<exists>parsed m a evs. rq = Some parsed \<and> get_prop parsed ''message'' = Inr m
    \<and> truthy m \<and> forward m up = (Inr a, evs)")
  case True
  then obtain parsed m a evs where h: "rq = Some parsed" "get_prop parsed ''message'' = Inr m"
      "truthy m" "forward m up = (Inr a, evs)"
    by blast
  then have "fst (POST rq up) = a" by (simp add: POST_forward)
  with forward_content [OF h(4)] show ?thesis by simp
next
  case False
  then have "is_string (content (body (fst (POST rq up))))"
    by (auto simp: POST_def try_block_def NextResponse_json_def
        split: option.splits sum.splits prod.splits)
  then show ?thesis ..
qed

section \<open>The handler's answers\<close>

text \<open>
  C10. A request body that is not JSON makes \<^verbatim>\<open>request.json()\<close> throw: whatever the
  external service would do, the handler answers with status 500 and the content
  "Sorry, something went wrong. Please try again.", not with the 400 validation answer,
  and its trace holds no outbound call (only the abort of the \<^verbatim>\<open>finally\<close> block).
\<close>

theorem POST_unparseable_body:
  "POST None up =
     (\<lparr>status = 500,
       body = \<lparr>role = Assistant,
               content = JStr ''Sorry, something went wrong. Please try again.'',
               urls = JUndefined\<rparr>\<rparr>,
      [FinallyAbort])
   \<and> outbound_calls (snd (POST None up)) = []
   \<and> status (fst (POST None up)) \<noteq> 400
   \<and> content (body (fst (POST None up))) \<noteq> JStr ''No message provided''"
  by (simp add: POST_def try_block_def NextResponse_json_def outbound_calls_def)

text \<open>
  C1 fails as stated for one body: the JSON text \<^verbatim>\<open>null\<close> is a body without a \<^verbatim>\<open>message\<close>
  field, but \<^verbatim>\<open>const { message } = null\<close> throws a TypeError before the check of line 439
  is reached, and the outer \<^verbatim>\<open>catch\<close> answers 500 with "Sorry, something went wrong.
  Please try again.", not 400 with "No message provided". No outbound call is made.
\<close>

theorem POST_null_body:
  "get_prop JNull ''message'' = Inl TypeError
   \<and> POST (Some JNull) Silent =
     (\<lparr>status = 500,
       body = \<lparr>role = Assistant,
               content = JStr ''Sorry, something went wrong. Please try again.'',
               urls = JUndefined\<rparr>\<rparr>,
      [FinallyAbort])
   \<and> status (fst (POST (Some JNull) Silent)) \<noteq> 400
   \<and> content (body (fst (POST (Some JNull) Silent))) \<noteq> JStr ''No message provided''"
  by (simp add: POST_def try_block_def)

text \<open>
  C1, amended. A request whose JSON body is not \<^verbatim>\<open>null\<close> and has no \<^verbatim>\<open>message\<close> property,
  or has the empty string there (the hypothesis: reading \<^verbatim>\<open>message\<close> from the body
  succeeds and gives \<^verbatim>\<open>undefined\<close> or the empty string), is answered at once with status
  400 and the message \<^verbatim>\<open>{role: "assistant", content: "No message provided"}\<close>, whatever the
  external service would do; the trace holds the abort of the \<^verbatim>\<open>finally\<close> block and
  nothing else, so no outbound call is made.
\<close>

theorem POST_no_message:
  assumes "get_prop parsed ''message'' = Inr JUndefined \<or>
           get_prop parsed ''message'' = Inr (JStr [])"
  shows "POST (Some parsed) up =
     (\<lparr>status = 400,
       body = \<lparr>role = Assistant, content = JStr ''No message provided'', urls = JUndefined\<rparr>\<rparr>,
      [FinallyAbort])
    \<and> outbound_calls (snd (POST (Some parsed) up)) = []"
proof -
  from assms obtain m where m: "get_prop parsed ''message'' = Inr m" "\<not> truthy m"
    by auto
  then show ?thesis
    by (simp add: POST_falsy_message outbound_calls_def)
qed

theorem POST_no_message_witness:
  "POST (Some (JObj []))
        (Replies 5 \<lparr>status = 200, body = Some (JObj [(''response'', JStr ''hi there'')])\<rparr>) =
     (\<lparr>status = 400,
       body = \<lparr>role = Assistant, content = JStr ''No message provided'', urls = JUndefined\<rparr>\<rparr>,
      [FinallyAbort])
   \<and> POST (Some (JObj [(''message'', JStr [])])) Silent =
     (\<lparr>status = 400,
       body = \<lparr>role = Assistant, content = JStr ''No message provided'', urls = JUndefined\<rparr>\<rparr>,
      [FinallyAbort])"
  using POST_no_message [of "JObj []"
      "Replies 5 \<lparr>status = 200, body = Some (JObj [(''response'', JStr ''hi there'')])\<rparr>"]
    POST_no_message [of "JObj [(''message'', JStr [])]" Silent]
  by simp

text \<open>
  C2. A request with a non-empty (truthy) \<^verbatim>\<open>message\<close> whose outbound call is still in
  flight 290000 milliseconds after its start: the timer aborts the call, and the handler
  answers with status 408 and the content "Sorry, the request timed out. Please try
  again.". The trace shows the timer set to 290000, the one outbound call carrying
  \<^verbatim>\<open>{message}\<close>, the abort by the timer and the abort of the \<^verbatim>\<open>finally\<close> block.
\<close>

theorem POST_timeout:
  assumes "get_prop parsed ''message'' = Inr m" and "truthy m"
    and "still_pending 290000 up"
  shows "POST (Some parsed) up =
     (\<lparr>status = 408,
       body = \<lparr>role = Assistant,
               content = JStr ''Sorry, the request timed out. Please try again.'',
               urls = JUndefined\<rparr>\<rparr>,
      [SetTimeout 290000,
       FetchCall ''https://connect-america-2.vercel.app/chat'' (JObj [(''message'', m)]),
       TimerAbort,
       FinallyAbort])"
  using assms by (simp add: POST_forward forward_pending)

theorem POST_timeout_witness:
  "POST (Some (JObj [(''message'', JStr ''hello'')]))
        (Replies 290001
           \<lparr>status = 200, body = Some (JObj [(''response'', JStr ''hi there'')])\<rparr>) =
     (\<lparr>status = 408,
       body = \<lparr>role = Assistant,
               content = JStr ''Sorry, the request timed out. Please try again.'',
               urls = JUndefined\<rparr>\<rparr>,
      [SetTimeout 290000,
       FetchCall ''https://connect-america-2.vercel.app/chat''
         (JObj [(''message'', JStr ''hello'')]),
       TimerAbort,
       FinallyAbort])"
  using POST_timeout [of "JObj [(''message'', JStr ''hello'')]" "JStr ''hello''"
      "Replies 290001 \<lparr>status = 200, body = Some (JObj [(''response'', JStr ''hi there'')])\<rparr>"]
  by simp

text \<open>
  C3 fails as stated for the statuses that the framework's response constructor refuses:
  the external service answers in time with status 304, \<^verbatim>\<open>response.ok\<close> is false,
  \<^verbatim>\<open>NextResponse.json(..., { status: 304 })\<close> throws, the inner \<^verbatim>\<open>catch\<close> throws the error
  again, and the outer \<^verbatim>\<open>catch\<close> answers 500 with "Sorry, something went wrong. Please try
  again.", not 304 with the upstream-error content.
\<close>

theorem POST_upstream_304:
  "POST (Some (JObj [(''message'', JStr ''hello'')]))
        (Replies 120 \<lparr>status = 304, body = None\<rparr>) =
     (\<lparr>status = 500,
       body = \<lparr>role = Assistant,
               content = JStr ''Sorry, something went wrong. Please try again.'',
               urls = JUndefined\<rparr>\<rparr>,
      [SetTimeout 290000,
       FetchCall ''https://connect-america-2.vercel.app/chat''
         (JObj [(''message'', JStr ''hello'')]),
       ClearTimeout,
       FinallyAbort])
   \<and> status (fst (POST (Some (JObj [(''message'', JStr ''hello'')]))
        (Replies 120 \<lparr>status = 304, body = None\<rparr>))) \<noteq> 304
   \<and> content (body (fst (POST (Some (JObj [(''message'', JStr ''hello'')]))
        (Replies 120 \<lparr>status = 304, body = None\<rparr>)))) \<noteq>
      JStr ''Sorry, I encountered an error processing your request.''"
  by (simp add: POST_upstream_refused [where m = "JStr ''hello''"])

text \<open>
  C3, amended. A request with a truthy \<^verbatim>\<open>message\<close> that the external service answers in
  time with a non-success status that a response with a body can carry, that is a status
  from 300 to 599 other than 304: the handler answers with that same status and the
  content "Sorry, I encountered an error processing your request.", whatever the body of
  the service's answer is.
\<close>

theorem POST_upstream_error:
  assumes "get_prop parsed ''message'' = Inr m" and "truthy m"
    and "t \<le> 290000"
    and "300 \<le> status r" and "status r \<le> 599" and "status r \<noteq> 304"
  shows "POST (Some parsed) (Replies t r) =
     (\<lparr>status = status r,
       body = \<lparr>role = Assistant,
               content = JStr ''Sorry, I encountered an error processing your request.'',
               urls = JUndefined\<rparr>\<rparr>,
      [SetTimeout 290000,
       FetchCall ''https://connect-america-2.vercel.app/chat'' (JObj [(''message'', m)]),
       ClearTimeout,
       FinallyAbort])"
  using assms
  by (simp add: POST_forward forward_replies on_response_not_ok)

theorem POST_upstream_error_witness:
  "POST (Some (JObj [(''message'', JStr ''hello'')]))
        (Replies 120 \<lparr>status = 503, body = None\<rparr>) =
     (\<lparr>status = 503,
       body = \<lparr>role = Assistant,
               content = JStr ''Sorry, I encountered an error processing your request.'',
               urls = JUndefined\<rparr>\<rparr>,
      [SetTimeout 290000,
       FetchCall ''https://connect-america-2.vercel.app/chat''
         (JObj [(''message'', JStr ''hello'')]),
       ClearTimeout,
       FinallyAbort])"
  using POST_upstream_error [of "JObj [(''message'', JStr ''hello'')]" "JStr ''hello''" 120
      "\<lparr>status = 503, body = None\<rparr>"]
  by simp

text \<open>
  The sentence of C4 about a present but empty \<^verbatim>\<open>response\<close> fails: the service answers
  200 with the body \<^verbatim>\<open>{"response": ""}\<close>, the \<^verbatim>\<open>response\<close> property is present and is the
  empty string, and the handler's content is "No response received", not the empty
  string.
\<close>

theorem POST_empty_response_replaced:
  "get_prop (JObj [(''response'', JStr [])]) ''response'' = Inr (JStr [])
   \<and> content (body (fst (POST (Some (JObj [(''message'', JStr ''hello'')]))
        (Replies 120 \<lparr>status = 200, body = Some (JObj [(''response'', JStr [])])\<rparr>))))
      = JStr ''No response received''
   \<and> content (body (fst (POST (Some (JObj [(''message'', JStr ''hello'')]))
        (Replies 120 \<lparr>status = 200, body = Some (JObj [(''response'', JStr [])])\<rparr>))))
      \<noteq> JStr []"
  by (simp add: POST_forward forward_replies js_or_def
      on_response_ok [where data = "JObj [(''response'', JStr [])]"])

text \<open>
  C4, amended. A request with a truthy \<^verbatim>\<open>message\<close> that the service answers in time with
  a status in 200 to 299 and a JSON body other than \<^verbatim>\<open>null\<close> (so that its properties can
  be read): the handler answers 200, the content is the body's \<^verbatim>\<open>response\<close> property when
  that is truthy (present and not the empty string, \<^verbatim>\<open>null\<close>, \<^verbatim>\<open>false\<close> or 0), otherwise
  the \<^verbatim>\<open>message\<close> property when that is truthy, otherwise the literal "No response
  received"; and \<^verbatim>\<open>urls\<close> is the body's \<^verbatim>\<open>urls\<close> property as it is, absent when that is
  absent.
\<close>

theorem POST_success:
  assumes "get_prop parsed ''message'' = Inr m" and "truthy m"
    and "t \<le> 290000"
    and "200 \<le> status r" and "status r \<le> 299" and "body r = Some data"
    and "get_prop data ''response'' = Inr dr"
    and "get_prop data ''message'' = Inr dm"
    and "get_prop data ''urls'' = Inr du"
  shows "fst (POST (Some parsed) (Replies t r)) =
     \<lparr>status = 200,
      body = \<lparr>role = Assistant,
              content = (if truthy dr then dr
                         else if truthy dm then dm
                         else JStr ''No response received''),
              urls = du\<rparr>\<rparr>"
  using assms
  by (simp add: POST_forward forward_replies on_response_ok js_or_def)

theorem POST_success_witness:
  "fst (POST (Some (JObj [(''message'', JStr ''hello'')]))
        (Replies 120
           \<lparr>status = 200, body = Some (JObj [(''response'', JStr ''hi there'')])\<rparr>)) =
     \<lparr>status = 200,
      body = \<lparr>role = Assistant, content = JStr ''hi there'', urls = JUndefined\<rparr>\<rparr>
   \<and> fst (POST (Some (JObj [(''message'', JStr ''hello'')]))
        (Replies 120
           \<lparr>status = 201,
            body = Some (JObj [(''message'', JStr ''see the manual''),
              (''urls'', JArr [JObj [(''url'', JStr ''https://x/my-file_name.pdf''),
                                     (''content'', JStr ''p. 3'')]])])\<rparr>)) =
     \<lparr>status = 200,
      body = \<lparr>role = Assistant, content = JStr ''see the manual'',
              urls = JArr [JObj [(''url'', JStr ''https://x/my-file_name.pdf''),
                                 (''content'', JStr ''p. 3'')]]\<rparr>\<rparr>
   \<and> fst (POST (Some (JObj [(''message'', JStr ''hello'')]))
        (Replies 120 \<lparr>status = 200, body = Some (JObj [])\<rparr>)) =
     \<lparr>status = 200,
      body = \<lparr>role = Assistant, content = JStr ''No response received'',
              urls = JUndefined\<rparr>\<rparr>"
  using POST_success [of "JObj [(''message'', JStr ''hello'')]" "JStr ''hello''" 120
      "\<lparr>status = 200, body = Some (JObj [(''response'', JStr ''hi there'')])\<rparr>"
      "JObj [(''response'', JStr ''hi there'')]" "JStr ''hi there''" JUndefined JUndefined]
    POST_success [of "JObj [(''message'', JStr ''hello'')]" "JStr ''hello''" 120
      "\<lparr>status = 201,
        body = Some (JObj [(''message'', JStr ''see the manual''),
          (''urls'', JArr [JObj [(''url'', JStr ''https://x/my-file_name.pdf''),
                                 (''content'', JStr ''p. 3'')]])])\<rparr>"
      "JObj [(''message'', JStr ''see the manual''),
          (''urls'', JArr [JObj [(''url'', JStr ''https://x/my-file_name.pdf''),
                                 (''content'', JStr ''p. 3'')]])]"
      JUndefined "JStr ''see the manual''"
      "JArr [JObj [(''url'', JStr ''https://x/my-file_name.pdf''),
                   (''content'', JStr ''p. 3'')]]"]
    POST_success [of "JObj [(''message'', JStr ''hello'')]" "JStr ''hello''" 120
      "\<lparr>status = 200, body = Some (JObj [])\<rparr>"
      "JObj []" JUndefined JUndefined JUndefined]
  by simp

text \<open>
  C5 fails as stated: the service answers 200 with the body \<^verbatim>\<open>{"response": 42}\<close>, and the
  handler's content is the number 42, not a string.
\<close>

theorem POST_number_content:
  "content (body (fst (POST (Some (JObj [(''message'', JStr ''hello'')]))
        (Replies 120 \<lparr>status = 200, body = Some (JObj [(''response'', JNum 42)])\<rparr>))))
      = JNum 42
   \<and> \<not> is_string (content (body (fst (POST (Some (JObj [(''message'', JStr ''hello'')]))
        (Replies 120 \<lparr>status = 200, body = Some (JObj [(''response'', JNum 42)])\<rparr>)))))"
  by (simp add: POST_forward forward_replies js_or_def
      on_response_ok [where data = "JObj [(''response'', JNum 42)]"])

text \<open>
  C5, amended. For every request (parseable or not) and whatever the external service
  does, the handler's answer has the role \<^verbatim>\<open>'assistant'\<close>; and its content is a string
  provided the \<^verbatim>\<open>response\<close> and \<^verbatim>\<open>message\<close> properties of the service's JSON body, where
  truthy, are strings. Validation error, timeout, upstream error and unexpected failure
  answer with literals of the handler, so for them the proviso is idle.
\<close>

theorem POST_reply_shape:
  assumes textual: "\<And>t r data k v. \<lbrakk>up = Replies t r; body r = Some data;
      k = ''response'' \<or> k = ''message''; get_prop data k = Inr v; truthy v\<rbrakk>
      \<Longrightarrow> is_string v"
  shows "role (body (fst (POST rq up))) = Assistant
    \<and> is_string (content (body (fst (POST rq up))))"
proof -
  from POST_content [of rq up] have "is_string (content (body (fst (POST rq up))))"
  proof
    assume "is_string (content (body (fst (POST rq up))))"
    then show ?thesis .
  next
    assume "\<exists>t r data v. up = Replies t r \<and> body r = Some data \<and>
        (get_prop data ''response'' = Inr v \<or> get_prop data ''message'' = Inr v) \<and>
        truthy v \<and> content (body (fst (POST rq up))) = v"
    then obtain t r data v where h: "up = Replies t r" "body r = Some data"
        "get_prop data ''response'' = Inr v \<or> get_prop data ''message'' = Inr v"
        "truthy v" "content (body (fst (POST rq up))) = v"
      by blast
    from h(3) obtain k where "k = ''response'' \<or> k = ''message''" "get_prop data k = Inr v"
      by blast
    with textual h(1,2,4) have "is_string v" by blast
    with h(5) show ?thesis by simp
  qed
  with POST_role show ?thesis by simp
qed

theorem POST_reply_shape_witness:
  "role (body (fst (POST (Some (JObj [(''message'', JStr ''hello'')]))
      (Replies 120
         \<lparr>status = 200, body = Some (JObj [(''response'', JStr ''hi there'')])\<rparr>))))
     = Assistant
   \<and> is_string (content (body (fst (POST (Some (JObj [(''message'', JStr ''hello'')]))
      (Replies 120
         \<lparr>status = 200, body = Some (JObj [(''response'', JStr ''hi there'')])\<rparr>)))))"
proof (rule POST_reply_shape)
  fix t r data k v
  assume "Replies 120
      \<lparr>status = 200, body = Some (JObj [(''response'', JStr ''hi there'')])\<rparr> = Replies t r"
    and "body r = Some data" and "k = ''response'' \<or> k = ''message''"
    and "get_prop data k = Inr v" and "truthy v"
  then show "is_string v" by auto
qed

section \<open>The client's submissions\<close>

text \<open>
  C6. When the input is empty or made of white space only, \<^verbatim>\<open>handleSubmit\<close> changes
  nothing, however the call would have settled: the state is the same (the same
  messages, \<^verbatim>\<open>loading\<close> and \<^verbatim>\<open>error\<close>) and no call is made.
\<close>

theorem handleSubmit_blank:
  assumes "list_all is_ws (inputValue s)"
  shows "handleSubmit s settled = (s, [])
    \<and> messages (fst (handleSubmit s settled)) = messages s
    \<and> loading (fst (handleSubmit s settled)) = loading s
    \<and> error (fst (handleSubmit s settled)) = error s
    \<and> snd (handleSubmit s settled) = []"
  using assms by (simp add: handleSubmit_def trim_blank)

theorem handleSubmit_blank_witness:
  "handleSubmit \<lparr>messages = [], inputValue = [CHR '' '', CHR 0x09, CHR 0x0A, CHR '' ''],
       isSidebarOpen = False, loading = False, error = None\<rparr> (Inl TypeError) =
     (\<lparr>messages = [], inputValue = [CHR '' '', CHR 0x09, CHR 0x0A, CHR '' ''],
       isSidebarOpen = False, loading = False, error = None\<rparr>, [])
   \<and> handleSubmit \<lparr>messages = [], inputValue = [], isSidebarOpen = False, loading = False,
       error = Some ''Failed to get response. Please try again.''\<rparr>
       (Inr \<lparr>status = 200,
             body = Some \<lparr>role = Assistant, content = JStr ''hi there'',
                          urls = JUndefined\<rparr>\<rparr>) =
     (\<lparr>messages = [], inputValue = [], isSidebarOpen = False, loading = False,
       error = Some ''Failed to get response. Please try again.''\<rparr>, [])"
  using handleSubmit_blank [of "\<lparr>messages = [],
       inputValue = [CHR '' '', CHR 0x09, CHR 0x0A, CHR '' ''],
       isSidebarOpen = False, loading = False, error = None\<rparr>" "Inl TypeError"]
    handleSubmit_blank [of "\<lparr>messages = [], inputValue = [], isSidebarOpen = False,
       loading = False, error = Some ''Failed to get response. Please try again.''\<rparr>"
       "Inr \<lparr>status = 200,
             body = Some \<lparr>role = Assistant, content = JStr ''hi there'',
                          urls = JUndefined\<rparr>\<rparr>"]
  by (simp add: is_ws_def)

text \<open>
  C7 fails as stated: for the input " hi" (a space, then "hi") the trimmed text is "hi",
  but the user message appended and the call made both carry " hi", space included.
\<close>

theorem handleSubmit_untrimmed:
  "trim '' hi'' = ''hi''
   \<and> messages (submit_begin \<lparr>messages = [], inputValue = '' hi'',
        isSidebarOpen = False, loading = False, error = None\<rparr>) =
      [\<lparr>role = User, content = JStr '' hi'', urls = JUndefined\<rparr>]
   \<and> messages (fst (handleSubmit \<lparr>messages = [], inputValue = '' hi'',
        isSidebarOpen = False, loading = False, error = None\<rparr> (Inl TypeError))) \<noteq>
      [\<lparr>role = User, content = JStr (trim '' hi''), urls = JUndefined\<rparr>]
   \<and> snd (handleSubmit \<lparr>messages = [], inputValue = '' hi'',
        isSidebarOpen = False, loading = False, error = None\<rparr> (Inl TypeError)) =
      [FetchCall ''/api/chat'' (JObj [(''message'', JStr '' hi'')])]"
  by (simp add: handleSubmit_def submit_begin_def sendMessageToAPI_def trim_def is_ws_def)

text \<open>
  C7, amended. When the input is not empty after trimming, submitting appends exactly one
  user message, whose content is the input as typed (not trimmed): it is the last message
  while the call is awaited, and in the end it is followed by the returned message when
  the call succeeds and by nothing when it fails. Exactly one call is made, to
  \<^verbatim>\<open>/api/chat\<close>, and its body carries the same untrimmed text.
\<close>

theorem handleSubmit_sends_input:
  assumes "trim (inputValue s) \<noteq> []"
  shows "messages (submit_begin s) =
       messages s @ [\<lparr>role = User, content = JStr (inputValue s), urls = JUndefined\<rparr>]
    \<and> messages (fst (handleSubmit s settled)) =
       messages s @ [\<lparr>role = User, content = JStr (inputValue s), urls = JUndefined\<rparr>] @
         (case fst (sendMessageToAPI (inputValue s) settled) of
            Inr aiResponse \<Rightarrow> [aiResponse]
          | Inl err \<Rightarrow> [])
    \<and> snd (handleSubmit s settled) =
       [FetchCall ''/api/chat'' (JObj [(''message'', JStr (inputValue s))])]"
  using assms
  by (simp add: handleSubmit_def submit_begin_def sendMessageToAPI_def
      split: sum.split prod.split)

theorem handleSubmit_sends_input_witness:
  "messages (submit_begin \<lparr>messages = [], inputValue = ''hello'',
        isSidebarOpen = False, loading = False, error = None\<rparr>) =
      [\<lparr>role = User, content = JStr ''hello'', urls = JUndefined\<rparr>]
   \<and> messages (fst (handleSubmit \<lparr>messages = [], inputValue = ''hello'',
        isSidebarOpen = False, loading = False, error = None\<rparr>
        (Inr \<lparr>status = 200,
              body = Some \<lparr>role = Assistant, content = JStr ''hi there'',
                           urls = JUndefined\<rparr>\<rparr>))) =
      [\<lparr>role = User, content = JStr ''hello'', urls = JUndefined\<rparr>,
       \<lparr>role = Assistant, content = JStr ''hi there'', urls = JUndefined\<rparr>]
   \<and> snd (handleSubmit \<lparr>messages = [], inputValue = ''hello'',
        isSidebarOpen = False, loading = False, error = None\<rparr>
        (Inr \<lparr>status = 200,
              body = Some \<lparr>role = Assistant, content = JStr ''hi there'',
                           urls = JUndefined\<rparr>\<rparr>)) =
      [FetchCall ''/api/chat'' (JObj [(''message'', JStr ''hello'')])]"
  using handleSubmit_sends_input [of "\<lparr>messages = [], inputValue = ''hello'',
        isSidebarOpen = False, loading = False, error = None\<rparr>"
        "Inr \<lparr>status = 200,
              body = Some \<lparr>role = Assistant, content = JStr ''hi there'',
                           urls = JUndefined\<rparr>\<rparr>"]
  by (simp add: trim_def is_ws_def sendMessageToAPI_def ok_def)

text \<open>
  C9 fails as stated: the handler is reached, the external service never answers, the
  handler answers 408 with its assistant-shaped timeout message, and the client does not
  append that message: the transcript holds the user message alone and the banner error
  is set.
\<close>

theorem handleSubmit_timeout_banner:
  "fst (POST (Some (JObj [(''message'', JStr ''hello'')])) Silent) =
     \<lparr>status = 408,
      body = \<lparr>role = Assistant,
              content = JStr ''Sorry, the request timed out. Please try again.'',
              urls = JUndefined\<rparr>\<rparr>
   \<and> fst (handleSubmit \<lparr>messages = [], inputValue = ''hello'',
        isSidebarOpen = False, loading = False, error = None\<rparr>
        (api_chat True Silent ''hello'')) =
     \<lparr>messages = [\<lparr>role = User, content = JStr ''hello'', urls = JUndefined\<rparr>],
      inputValue = [], isSidebarOpen = False, loading = False,
      error = Some ''Failed to get response. Please try again.''\<rparr>"
  by (simp add: handleSubmit_def submit_begin_def sendMessageToAPI_def api_chat_def ok_def
      trim_def is_ws_def POST_forward forward_pending)

text \<open>
  C9, amended. For a submission that is not blank: when the handler answers with a status
  outside 200 to 299 (validation error, timeout, upstream error, unexpected failure), the
  client treats it as it treats a handler it cannot reach: the handler's message is not
  appended, the transcript gains the user message only, and the banner error "Failed to
  get response. Please try again." is set. The handler's message is appended, and no
  error is set, exactly when the handler is reached and answers with a status in 200 to
  299.
\<close>

theorem handleSubmit_handler_failure:
  assumes "trim (inputValue s) \<noteq> []"
  shows "(\<not> reachable \<or>
          \<not> ok (fst (POST (Some (JObj [(''message'', JStr (inputValue s))])) up)) \<longrightarrow>
        messages (fst (handleSubmit s (api_chat reachable up (inputValue s)))) =
          messages s @ [\<lparr>role = User, content = JStr (inputValue s), urls = JUndefined\<rparr>]
        \<and> error (fst (handleSubmit s (api_chat reachable up (inputValue s)))) =
          Some ''Failed to get response. Please try again.'')
    \<and> (reachable \<and> ok (fst (POST (Some (JObj [(''message'', JStr (inputValue s))])) up)) \<longrightarrow>
        messages (fst (handleSubmit s (api_chat reachable up (inputValue s)))) =
          messages s @ [\<lparr>role = User, content = JStr (inputValue s), urls = JUndefined\<rparr>,
                        body (fst (POST (Some (JObj [(''message'', JStr (inputValue s))])) up))]
        \<and> error (fst (handleSubmit s (api_chat reachable up (inputValue s)))) = None)"
  using assms
  by (simp add: handleSubmit_def submit_begin_def sendMessageToAPI_def api_chat_def ok_def)

theorem handleSubmit_handler_failure_witness:
  "messages (fst (handleSubmit \<lparr>messages = [], inputValue = ''hello'',
        isSidebarOpen = False, loading = False, error = None\<rparr>
        (api_chat True (Replies 120 \<lparr>status = 503, body = None\<rparr>) ''hello''))) =
      [\<lparr>role = User, content = JStr ''hello'', urls = JUndefined\<rparr>]
   \<and> error (fst (handleSubmit \<lparr>messages = [], inputValue = ''hello'',
        isSidebarOpen = False, loading = False, error = None\<rparr>
        (api_chat True (Replies 120 \<lparr>status = 503, body = None\<rparr>) ''hello''))) =
      Some ''Failed to get response. Please try again.''
   \<and> messages (fst (handleSubmit \<lparr>messages = [], inputValue = ''hello'',
        isSidebarOpen = False, loading = False, error = None\<rparr>
        (api_chat False Silent ''hello''))) =
      [\<lparr>role = User, content = JStr ''hello'', urls = JUndefined\<rparr>]
   \<and> messages (fst (handleSubmit \<lparr>messages = [], inputValue = ''hello'',
        isSidebarOpen = False, loading = False, error = None\<rparr>
        (api_chat True
           (Replies 120
              \<lparr>status = 200, body = Some (JObj [(''response'', JStr ''hi there'')])\<rparr>)
           ''hello''))) =
      [\<lparr>role = User, content = JStr ''hello'', urls = JUndefined\<rparr>,
       \<lparr>role = Assistant, content = JStr ''hi there'', urls = JUndefined\<rparr>]"
  using handleSubmit_handler_failure [of "\<lparr>messages = [], inputValue = ''hello'',
        isSidebarOpen = False, loading = False, error = None\<rparr>" True
        "Replies 120 \<lparr>status = 503, body = None\<rparr>"]
    handleSubmit_handler_failure [of "\<lparr>messages = [], inputValue = ''hello'',
        isSidebarOpen = False, loading = False, error = None\<rparr>" False Silent]
    handleSubmit_handler_failure [of "\<lparr>messages = [], inputValue = ''hello'',
        isSidebarOpen = False, loading = False, error = None\<rparr>" True
        "Replies 120
           \<lparr>status = 200, body = Some (JObj [(''response'', JStr ''hi there'')])\<rparr>"]
  by (simp add: trim_def is_ws_def ok_def POST_forward forward_replies js_or_def
      on_response_not_ok
      on_response_ok [where data = "JObj [(''response'', JStr ''hi there'')]"])

section \<open>The label of a referenced document\<close>

text \<open>
  C8 fails as stated: the URL \<^verbatim>\<open>https://x/a.doc.pdf\<close> contains \<^verbatim>\<open>.doc\<close>, and its
  label is "PDF Document", not "Word Document".
\<close>

theorem document_type_label_doc_pdf:
  "includes_str ''https://x/a.doc.pdf'' ''.doc''
   \<and> document_type_label ''https://x/a.doc.pdf'' = ''PDF Document''
   \<and> document_type_label ''https://x/a.doc.pdf'' \<noteq> ''Word Document''"
  by (simp add: document_type_label_def)

text \<open>
  C8, amended. The label is decided by what the URL contains, anywhere in it and in this
  order: a URL that contains \<^verbatim>\<open>.pdf\<close> is labelled "PDF Document"; a URL that does not
  contain \<^verbatim>\<open>.pdf\<close> but contains \<^verbatim>\<open>.doc\<close> is labelled "Word Document"; every other URL is
  labelled "Document".
\<close>

theorem document_type_label_substring:
  "((\<exists>a b. url = a @ ''.pdf'' @ b) \<longrightarrow> document_type_label url = ''PDF Document'')
   \<and> (\<not> (\<exists>a b. url = a @ ''.pdf'' @ b) \<and> (\<exists>a b. url = a @ ''.doc'' @ b) \<longrightarrow>
        document_type_label url = ''Word Document'')
   \<and> (\<not> (\<exists>a b. url = a @ ''.pdf'' @ b) \<and> \<not> (\<exists>a b. url = a @ ''.doc'' @ b) \<longrightarrow>
        document_type_label url = ''Document'')"
  unfolding includes_str_iff [symmetric] by (simp add: document_type_label_def)

theorem document_type_label_substring_witness:
  "document_type_label ''https://x/my-file_name.pdf?page=2'' = ''PDF Document''
   \<and> document_type_label ''https://x/notes.docx'' = ''Word Document''
   \<and> document_type_label ''https://x/photo.PDF'' = ''Document''"
  using document_type_label_substring [of "''https://x/my-file_name.pdf?page=2''"]
    document_type_label_substring [of "''https://x/notes.docx''"]
    document_type_label_substring [of "''https://x/photo.PDF''"]
  unfolding includes_str_iff [symmetric] by simp

end
